theory Spec2Isabelle
  imports Main
begin

section \<open>Values, dictionaries and failures\<close>

text \<open>
  A shallow embedding of \<^verbatim>\<open>aiocqhttp/api.py\<close>. Python values that travel through the
  API layer are JSON values; \<^verbatim>\<open>None\<close> is \<open>JNull\<close>. A \<^verbatim>\<open>dict\<close> is an association list
  (keys distinct in a well-formed dictionary), read with \<open>map_of\<close>. Floating point numbers
  are left out: no function of the module inspects one.
\<close>

datatype json =
    JNull
  | JBool bool
  | JInt int
  | JStr string
  | JArr "json list"
  | JObj "(string \<times> json) list"

type_synonym py_dict = "(string \<times> json) list"

text \<open>\<^verbatim>\<open>d.get(k)\<close>: the value under \<open>k\<close>, \<^verbatim>\<open>None\<close> when the key is absent.\<close>

definition dict_get :: "py_dict \<Rightarrow> string \<Rightarrow> json" where
  "dict_get d k = (case map_of d k of None \<Rightarrow> JNull | Some v \<Rightarrow> v)"

text \<open>Python's truth value of an object, as \<^verbatim>\<open>if x:\<close> reads it.\<close>

fun py_truthy :: "json \<Rightarrow> bool" where
  "py_truthy JNull = False"
| "py_truthy (JBool b) = b"
| "py_truthy (JInt i) = (i \<noteq> 0)"
| "py_truthy (JStr s) = (s \<noteq> [])"
| "py_truthy (JArr xs) = (xs \<noteq> [])"
| "py_truthy (JObj d) = (d \<noteq> [])"

text \<open>
  \<^verbatim>\<open>isinstance(x, int)\<close>, with the integer the object is as a dictionary key: \<^verbatim>\<open>bool\<close> is
  a subclass of \<^verbatim>\<open>int\<close>, and \<^verbatim>\<open>True\<close> and \<^verbatim>\<open>1\<close> are the same key.
\<close>

fun py_int :: "json \<Rightarrow> int option" where
  "py_int (JInt i) = Some i"
| "py_int (JBool b) = Some (if b then 1 else 0)"
| "py_int _ = None"

text \<open>
  The failures of \<^verbatim>\<open>aiocqhttp.exceptions\<close> that the module raises, and the built-in ones
  its statements can raise. \<^verbatim>\<open>ActionFailed\<close> carries \<^verbatim>\<open>result.get('retcode')\<close>, whatever
  value that is; \<^verbatim>\<open>HttpFailed\<close> carries the status code.
\<close>

datatype error =
    ApiNotAvailable
  | ActionFailed json
  | HttpFailed int
  | NetworkError string
  | KeyError json
  | ValueError
  | AttributeError
  | InvalidStateError
  | TimeoutError
  | CancelledError

section \<open>Result extraction\<close>

text \<open>
  \<^verbatim>\<open>_handle_api_result\<close>: for a \<^verbatim>\<open>dict\<close>, \<^verbatim>\<open>ActionFailed\<close> when \<^verbatim>\<open>status\<close> is
  \<^verbatim>\<open>'failed'\<close>, the \<^verbatim>\<open>data\<close> field otherwise; for anything else the function falls off its
  end and returns \<^verbatim>\<open>None\<close>.
\<close>

fun handle_api_result :: "json \<Rightarrow> error + json" where
  "handle_api_result (JObj d) =
     (if dict_get d ''status'' = JStr ''failed''
      then Inl (ActionFailed (dict_get d ''retcode''))
      else Inr (dict_get d ''data''))"
| "handle_api_result _ = Inr JNull"

section \<open>HttpApi\<close>

record HttpApi =
  api_root :: "string option"
  access_token :: "string option"

text \<open>\<^verbatim>\<open>s.rstrip('/')\<close>.\<close>

definition rstrip_slash :: "string \<Rightarrow> string" where
  "rstrip_slash s = rev (dropWhile (\<lambda>c. c = CHR ''/'') (rev s))"

text \<open>\<^verbatim>\<open>HttpApi.__init__\<close>: an empty or absent root is stored as \<^verbatim>\<open>None\<close>.\<close>

definition HttpApi_init :: "string option \<Rightarrow> string option \<Rightarrow> HttpApi" where
  "HttpApi_init root token =
     \<lparr> api_root = (case root of None \<Rightarrow> None
                    | Some r \<Rightarrow> if r = [] then None else Some (rstrip_slash r)),
       access_token = token \<rparr>"

text \<open>\<^verbatim>\<open>HttpApi._is_available\<close>: \<^verbatim>\<open>bool(self._api_root)\<close>.\<close>

definition http_is_available :: "HttpApi \<Rightarrow> bool" where
  "http_is_available api = (case api_root api of None \<Rightarrow> False | Some r \<Rightarrow> r \<noteq> [])"

text \<open>
  The request handed to \<^verbatim>\<open>aiohttp.request('POST', ...)\<close> and what comes back. The body
  of a response is given as \<^verbatim>\<open>json.loads\<close> reads it: \<open>None\<close> when \<^verbatim>\<open>json.loads\<close> raises
  \<^verbatim>\<open>ValueError\<close>. \<open>InvalidURL\<close> and \<open>ClientError\<close> are the two exceptions of \<^verbatim>\<open>aiohttp\<close>
  the method catches.
\<close>

record http_request =
  req_url :: string
  req_json :: py_dict
  req_headers :: "(string \<times> string) list"

datatype http_reply =
    Response int "json option"
  | InvalidURL
  | ClientError

definition http_headers :: "HttpApi \<Rightarrow> (string \<times> string) list" where
  "http_headers api =
     (case access_token api of
        None \<Rightarrow> []
      | Some t \<Rightarrow> if t = [] then [] else [(''Authorization'', ''Bearer '' @ t)])"

text \<open>\<^verbatim>\<open>HttpApi.call_action\<close>; \<open>post\<close> is the network.\<close>

definition HttpApi_call_action ::
  "(http_request \<Rightarrow> http_reply) \<Rightarrow> HttpApi \<Rightarrow> string \<Rightarrow> py_dict \<Rightarrow> error + json" where
  "HttpApi_call_action post api action params =
     (if \<not> http_is_available api then Inl ApiNotAvailable
      else case api_root api of
        None \<Rightarrow> Inl ApiNotAvailable
      | Some root \<Rightarrow>
          (case post \<lparr> req_url = root @ ''/'' @ action, req_json = params,
                       req_headers = http_headers api \<rparr> of
             Response status body \<Rightarrow>
               if 200 \<le> status \<and> status < 300
               then (case body of None \<Rightarrow> Inl ValueError | Some j \<Rightarrow> handle_api_result j)
               else Inl (HttpFailed status)
           | InvalidURL \<Rightarrow> Inl (NetworkError ''API root url invalid'')
           | ClientError \<Rightarrow> Inl (NetworkError ''HTTP request failed with client error'')))"

section \<open>The sequence generator\<close>

text \<open>\<^verbatim>\<open>sys.maxsize\<close> of a 64-bit CPython.\<close>

definition sys_maxsize :: int where
  "sys_maxsize = 2 ^ 63 - 1"

text \<open>
  \<^verbatim>\<open>_SequenceGenerator.next\<close> on the class attribute \<^verbatim>\<open>_seq\<close>: the identifier returned
  and the new value of \<^verbatim>\<open>_seq\<close>. The attribute starts at 1.
\<close>

definition seq_next :: "int \<Rightarrow> int \<times> int" where
  "seq_next s = (s, (s + 1) mod sys_maxsize)"

definition seq_initial :: int where
  "seq_initial = 1"

text \<open>\<^verbatim>\<open>_seq\<close> after \<open>n\<close> calls, and the identifier the call after them returns.\<close>

primrec seq_after :: "nat \<Rightarrow> int" where
  "seq_after 0 = seq_initial"
| "seq_after (Suc n) = snd (seq_next (seq_after n))"

definition nth_id :: "nat \<Rightarrow> int" where
  "nth_id n = fst (seq_next (seq_after n))"

section \<open>UnifiedApi\<close>

text \<open>
  An \<^verbatim>\<open>Api\<close> object, as \<^verbatim>\<open>UnifiedApi\<close> sees it: \<^verbatim>\<open>call_action\<close> runs on the world \<open>'w\<close>,
  changes it, and returns a value or raises.
\<close>

type_synonym 'w api = "string \<Rightarrow> py_dict \<Rightarrow> 'w \<Rightarrow> (error + json) \<times> 'w"

text \<open>
  One \<^verbatim>\<open>try: result = await api.call_action(...); succeeded = True\<close>
  \<^verbatim>\<open>except ApiNotAvailable: pass\<close> block, on the variables \<open>(result, succeeded)\<close>.
\<close>

definition try_call ::
  "'w api \<Rightarrow> string \<Rightarrow> py_dict \<Rightarrow> json \<times> bool \<Rightarrow> 'w \<Rightarrow> (error + json \<times> bool) \<times> 'w" where
  "try_call api action params vars w =
     (case api action params w of
        (Inr r, w') \<Rightarrow> (Inr (r, True), w')
      | (Inl e, w') \<Rightarrow> if e = ApiNotAvailable then (Inr vars, w') else (Inl e, w'))"

text \<open>\<^verbatim>\<open>UnifiedApi.call_action\<close>, on \<^verbatim>\<open>self._http_api\<close> and \<^verbatim>\<open>self._wsr_api\<close>.\<close>

definition UnifiedApi_call_action ::
  "'w api option \<Rightarrow> 'w api option \<Rightarrow> string \<Rightarrow> py_dict \<Rightarrow> 'w \<Rightarrow> (error + json) \<times> 'w" where
  "UnifiedApi_call_action http wsr action params w =
     (case (case wsr of
              None \<Rightarrow> (Inr (JNull, False), w)
            | Some a \<Rightarrow> try_call a action params (JNull, False) w) of
        (Inl e, w1) \<Rightarrow> (Inl e, w1)
      | (Inr (result, succeeded), w1) \<Rightarrow>
          (case (case http of
                   None \<Rightarrow> (Inr (result, succeeded), w1)
                 | Some a \<Rightarrow> if succeeded then (Inr (result, succeeded), w1)
                            else try_call a action params (result, succeeded) w1) of
             (Inl e, w2) \<Rightarrow> (Inl e, w2)
           | (Inr (result', succeeded'), w2) \<Rightarrow>
               if \<not> succeeded' then (Inl ApiNotAvailable, w2) else (Inr result', w2)))"

section \<open>ResultStore\<close>

text \<open>
  \<^verbatim>\<open>ResultStore._futures\<close> maps a sequence number to an \<^verbatim>\<open>asyncio.Future\<close> object.
  Futures are objects with identity: \<open>futures\<close> holds references, \<open>objects\<close> gives the
  state of the object behind each reference, and references below \<open>next_ref\<close> are the ones
  \<^verbatim>\<open>create_future\<close> has handed out.
\<close>

datatype future = Pending | Done json | Cancelled

record ResultStore =
  futures :: "int \<rightharpoonup> nat"
  objects :: "nat \<Rightarrow> future"
  next_ref :: nat

definition empty_store :: ResultStore where
  "empty_store = \<lparr> futures = Map.empty, objects = (\<lambda>_. Pending), next_ref = 0 \<rparr>"

text \<open>
  The key \<^verbatim>\<open>ResultStore.add\<close> looks up: \<^verbatim>\<open>result['echo']['seq']\<close> when
  \<^verbatim>\<open>result.get('echo')\<close> is a \<^verbatim>\<open>dict\<close> and its \<^verbatim>\<open>seq\<close> is an \<^verbatim>\<open>int\<close>.
\<close>

definition echo_seq :: "py_dict \<Rightarrow> int option" where
  "echo_seq d = (case dict_get d ''echo'' of JObj e \<Rightarrow> py_int (dict_get e ''seq'') | _ \<Rightarrow> None)"

text \<open>
  \<^verbatim>\<open>ResultStore.add\<close>. \<^verbatim>\<open>result.get\<close> on an object that is not a \<^verbatim>\<open>dict\<close> raises
  \<^verbatim>\<open>AttributeError\<close>; \<^verbatim>\<open>set_result\<close> on a future that is no longer pending raises
  \<^verbatim>\<open>InvalidStateError\<close>. The future's result is the whole \<^verbatim>\<open>result\<close> object.
\<close>

definition ResultStore_add :: "json \<Rightarrow> ResultStore \<Rightarrow> error + ResultStore" where
  "ResultStore_add result st =
     (case result of
        JObj d \<Rightarrow>
          (case echo_seq d of
             None \<Rightarrow> Inr st
           | Some seq \<Rightarrow>
               (case futures st seq of
                  None \<Rightarrow> Inr st
                | Some ref \<Rightarrow>
                    (case objects st ref of
                       Pending \<Rightarrow> Inr (st\<lparr> objects := (objects st)(ref := Done result) \<rparr>)
                     | _ \<Rightarrow> Inl InvalidStateError)))
      | _ \<Rightarrow> Inl AttributeError)"

text \<open>
  The first two statements of \<^verbatim>\<open>ResultStore.fetch\<close>:
  \<^verbatim>\<open>future = create_future(); cls._futures[seq] = future\<close>. Returns the new reference.
\<close>

definition fetch_begin :: "int \<Rightarrow> ResultStore \<Rightarrow> nat \<times> ResultStore" where
  "fetch_begin seq st =
     (next_ref st,
      st\<lparr> futures := (futures st)(seq \<mapsto> next_ref st),
          objects := (objects st)(next_ref st := Pending),
          next_ref := Suc (next_ref st) \<rparr>)"

text \<open>The \<^verbatim>\<open>finally\<close> block, \<^verbatim>\<open>del cls._futures[seq]\<close>: \<^verbatim>\<open>KeyError\<close> on an absent key.\<close>

definition fetch_finally :: "int \<Rightarrow> ResultStore \<Rightarrow> error + ResultStore" where
  "fetch_finally seq st =
     (case futures st seq of
        None \<Rightarrow> Inl (KeyError (JInt seq))
      | Some _ \<Rightarrow> Inr (st\<lparr> futures := (futures st)(seq := None) \<rparr>))"

text \<open>
  What happens while a call is suspended in \<^verbatim>\<open>await asyncio.wait_for(future, 60)\<close>: an
  inbound frame is handed to \<^verbatim>\<open>ResultStore.add\<close>, a second passes, the waiting task is
  cancelled, or another task enters or leaves \<^verbatim>\<open>ResultStore.fetch\<close>. These are the only
  statements of the module that touch the store.
\<close>

datatype event =
    Reply json
  | Tick
  | CancelTask
  | OtherFetchBegin int
  | OtherFetchEnd int

text \<open>
  The effect of an event of another task on the store. A failure of \<^verbatim>\<open>add\<close> or of the
  other task's \<^verbatim>\<open>del\<close> is raised in that task and leaves the store as it was.
\<close>

fun env_step :: "event \<Rightarrow> ResultStore \<Rightarrow> ResultStore" where
  "env_step (Reply r) st = (case ResultStore_add r st of Inl _ \<Rightarrow> st | Inr st' \<Rightarrow> st')"
| "env_step (OtherFetchBegin s) st = snd (fetch_begin s st)"
| "env_step (OtherFetchEnd s) st = (case fetch_finally s st of Inl _ \<Rightarrow> st | Inr st' \<Rightarrow> st')"
| "env_step Tick st = st"
| "env_step CancelTask st = st"

definition cancel_future :: "nat \<Rightarrow> ResultStore \<Rightarrow> ResultStore" where
  "cancel_future ref st = st\<lparr> objects := (objects st)(ref := Cancelled) \<rparr>"

text \<open>
  Whether \<^verbatim>\<open>wait_for\<close> wakes now, with \<open>secs\<close> seconds left: with the future's result
  when it is done, with \<^verbatim>\<open>TimeoutError\<close> (and the future cancelled) when no time is left.
\<close>

definition poll :: "nat \<Rightarrow> nat \<Rightarrow> ResultStore \<Rightarrow> ((error + json) \<times> ResultStore) option" where
  "poll ref secs st =
     (case objects st ref of
        Done r \<Rightarrow> Some (Inr r, st)
      | Cancelled \<Rightarrow> Some (Inl CancelledError, st)
      | Pending \<Rightarrow> if secs = 0 then Some (Inl TimeoutError, cancel_future ref st) else None)"

text \<open>
  \<^verbatim>\<open>await asyncio.wait_for(future, secs)\<close> under a schedule of events. \<open>None\<close>: the
  schedule ends with the call still suspended.
\<close>

fun wait_for ::
  "nat \<Rightarrow> nat \<Rightarrow> event list \<Rightarrow> ResultStore \<Rightarrow> ((error + json) \<times> ResultStore) option" where
  "wait_for ref secs [] st = poll ref secs st"
| "wait_for ref secs (ev # rest) st =
     (case poll ref secs st of
        Some out \<Rightarrow> Some out
      | None \<Rightarrow>
          (case ev of
             Tick \<Rightarrow> wait_for ref (secs - 1) rest st
           | CancelTask \<Rightarrow> Some (Inl CancelledError, cancel_future ref st)
           | _ \<Rightarrow> wait_for ref secs rest (env_step ev st)))"

text \<open>
  \<^verbatim>\<open>ResultStore.fetch\<close>: \<^verbatim>\<open>TimeoutError\<close> becomes \<^verbatim>\<open>NetworkError\<close>, every other outcome
  passes, and the \<^verbatim>\<open>finally\<close> block runs on every path; an exception it raises replaces
  the outcome.
\<close>

definition ResultStore_fetch ::
  "int \<Rightarrow> event list \<Rightarrow> ResultStore \<Rightarrow> ((error + json) \<times> ResultStore) option" where
  "ResultStore_fetch seq evs st =
     (case fetch_begin seq st of
        (ref, st1) \<Rightarrow>
          (case wait_for ref 60 evs st1 of
             None \<Rightarrow> None
           | Some (out, st2) \<Rightarrow>
               (case fetch_finally seq st2 of
                  Inl e \<Rightarrow> Some (Inl e, st2)
                | Inr st3 \<Rightarrow>
                    Some (if out = Inl TimeoutError
                          then Inl (NetworkError ''WebSocket API call timeout'')
                          else out, st3))))"

text \<open>
  Schedules: the seconds that pass in one, the events before the \<open>n\<close>-th second has
  passed, and the events that leave the slot of \<open>seq\<close> and its waiter alone.
\<close>

fun ticks :: "event list \<Rightarrow> nat" where
  "ticks [] = 0"
| "ticks (Tick # evs) = Suc (ticks evs)"
| "ticks (_ # evs) = ticks evs"

fun before_deadline :: "nat \<Rightarrow> event list \<Rightarrow> event list" where
  "before_deadline 0 evs = []"
| "before_deadline (Suc n) [] = []"
| "before_deadline (Suc n) (Tick # evs) = Tick # before_deadline n evs"
| "before_deadline (Suc n) (ev # evs) = ev # before_deadline (Suc n) evs"

fun unrelated :: "int \<Rightarrow> event \<Rightarrow> bool" where
  "unrelated seq (Reply (JObj d)) = (echo_seq d \<noteq> Some seq)"
| "unrelated seq (Reply _) = True"
| "unrelated seq Tick = True"
| "unrelated seq CancelTask = False"
| "unrelated seq (OtherFetchBegin s) = (s \<noteq> seq)"
| "unrelated seq (OtherFetchEnd s) = (s \<noteq> seq)"

text \<open>Every reference in the store has been handed out by \<^verbatim>\<open>create_future\<close>.\<close>

definition wf_store :: "ResultStore \<Rightarrow> bool" where
  "wf_store st = (\<forall>s r. futures st s = Some r \<longrightarrow> r < next_ref st)"

section \<open>WebSocketReverseApi\<close>

text \<open>
  \<^verbatim>\<open>self._clients\<close> maps a self id to a connection; a connection is a handle. The
  current inbound websocket \<^verbatim>\<open>event_ws\<close> is \<open>None\<close> outside a websocket context (the
  proxy is falsy) and its headers inside one.
\<close>

type_synonym ws = nat
type_synonym clients = "(string \<times> ws) list"
type_synonym headers = "(string \<times> string) list"

text \<open>\<^verbatim>\<open>headers[k]\<close>: \<^verbatim>\<open>KeyError\<close> on an absent header.\<close>

definition header_get :: "headers \<Rightarrow> string \<Rightarrow> error + string" where
  "header_get hs k = (case map_of hs k of None \<Rightarrow> Inl (KeyError (JStr k)) | Some v \<Rightarrow> Inr v)"

text \<open>
  \<^verbatim>\<open>WebSocketReverseApi._is_available\<close>:
  \<^verbatim>\<open>event_ws and event_ws.headers['X-Self-ID'] in self._clients\<close>.
\<close>

definition wsr_is_available :: "clients \<Rightarrow> headers option \<Rightarrow> error + bool" where
  "wsr_is_available cs event_ws =
     (case event_ws of
        None \<Rightarrow> Inr False
      | Some hs \<Rightarrow>
          (case header_get hs ''X-Self-ID'' of
             Inl e \<Rightarrow> Inl e
           | Inr sid \<Rightarrow> Inr (map_of cs sid \<noteq> None)))"

text \<open>
  The \<^verbatim>\<open>if/elif/elif\<close> chain of \<^verbatim>\<open>WebSocketReverseApi.call_action\<close> that sets
  \<^verbatim>\<open>api_ws\<close>; \<open>str_of\<close> is Python's \<^verbatim>\<open>str\<close>.
\<close>

definition select_api_ws ::
  "(json \<Rightarrow> string) \<Rightarrow> clients \<Rightarrow> headers option \<Rightarrow> py_dict \<Rightarrow> error + ws option" where
  "select_api_ws str_of cs event_ws params =
     (case wsr_is_available cs event_ws of
        Inl e \<Rightarrow> Inl e
      | Inr True \<Rightarrow>
          (case event_ws of
             None \<Rightarrow> Inr None
           | Some hs \<Rightarrow>
               (case header_get hs ''X-Self-ID'' of
                  Inl e \<Rightarrow> Inl e
                | Inr sid \<Rightarrow> Inr (map_of cs sid)))
      | Inr False \<Rightarrow>
          if py_truthy (dict_get params ''self_id'')
          then Inr (map_of cs (str_of (dict_get params ''self_id'')))
          else if length cs = 1
          then (case cs of (_, c) # _ \<Rightarrow> Inr (Some c) | [] \<Rightarrow> Inr None)
          else Inr None)"

text \<open>
  What a call runs on: \<^verbatim>\<open>_SequenceGenerator._seq\<close>, the result store, and the frames
  handed to \<^verbatim>\<open>api_ws.send\<close>, oldest first, each with its connection. A frame is the
  object \<^verbatim>\<open>json.dumps\<close> is given.
\<close>

record world =
  seq_counter :: int
  store :: ResultStore
  sent :: "(ws \<times> json) list"

definition frame_of :: "string \<Rightarrow> py_dict \<Rightarrow> int \<Rightarrow> json" where
  "frame_of action params seq =
     JObj [(''action'', JStr action), (''params'', JObj params),
           (''echo'', JObj [(''seq'', JInt seq)])]"

text \<open>
  \<^verbatim>\<open>WebSocketReverseApi.call_action\<close>; \<open>evs\<close> is what happens while the call is
  suspended in \<^verbatim>\<open>ResultStore.fetch\<close>.
\<close>

definition WebSocketReverseApi_call_action ::
  "(json \<Rightarrow> string) \<Rightarrow> clients \<Rightarrow> headers option \<Rightarrow> event list \<Rightarrow>
   string \<Rightarrow> py_dict \<Rightarrow> world \<Rightarrow> ((error + json) \<times> world) option" where
  "WebSocketReverseApi_call_action str_of cs event_ws evs action params w =
     (case select_api_ws str_of cs event_ws params of
        Inl e \<Rightarrow> Some (Inl e, w)
      | Inr None \<Rightarrow> Some (Inl ApiNotAvailable, w)
      | Inr (Some api_ws) \<Rightarrow>
          (case seq_next (seq_counter w) of
             (seq, s') \<Rightarrow>
               (case ResultStore_fetch seq evs (store w) of
                  None \<Rightarrow> None
                | Some (out, st') \<Rightarrow>
                    Some (case out of Inl e \<Rightarrow> Inl e | Inr r \<Rightarrow> handle_api_result r,
                          \<lparr> seq_counter = s', store = st',
                            sent = sent w @ [(api_ws, frame_of action params seq)] \<rparr>))))"

text \<open>
  The identity of the active inbound context, and the connection registered under it.
\<close>

definition context_identity :: "headers option \<Rightarrow> string option" where
  "context_identity event_ws =
     (case event_ws of None \<Rightarrow> None | Some hs \<Rightarrow> map_of hs ''X-Self-ID'')"

definition context_ws :: "clients \<Rightarrow> headers option \<Rightarrow> ws option" where
  "context_ws cs event_ws =
     (case context_identity event_ws of None \<Rightarrow> None | Some sid \<Rightarrow> map_of cs sid)"

text \<open>
  The selection as the specification words it: the identity of the active context when
  registered, else the \<^verbatim>\<open>self_id\<close> parameter when supplied and registered, else the sole
  registered connection.
\<close>

definition spec_select ::
  "(json \<Rightarrow> string) \<Rightarrow> clients \<Rightarrow> headers option \<Rightarrow> py_dict \<Rightarrow> ws option" where
  "spec_select str_of cs event_ws params =
     (case context_ws cs event_ws of
        Some c \<Rightarrow> Some c
      | None \<Rightarrow>
          (case (if py_truthy (dict_get params ''self_id'')
                 then map_of cs (str_of (dict_get params ''self_id'')) else None) of
             Some c \<Rightarrow> Some c
           | None \<Rightarrow> (case cs of [(_, c)] \<Rightarrow> Some c | _ \<Rightarrow> None)))"

text \<open>
  Python's \<^verbatim>\<open>str\<close> on strings, booleans and \<^verbatim>\<open>None\<close>, for the examples; the
  theorems hold for every \<open>str_of\<close>.
\<close>

fun py_str :: "json \<Rightarrow> string" where
  "py_str (JStr s) = s"
| "py_str JNull = ''None''"
| "py_str (JBool b) = (if b then ''True'' else ''False'')"
| "py_str _ = []"

section \<open>The waiter's invariant and example values\<close>

text \<open>
  While a call waits on \<open>seq\<close> with the future \<open>ref\<close>: the slot of \<open>seq\<close> holds \<open>ref\<close>,
  the future is pending, and no other slot holds it.
\<close>

definition waiting :: "int \<Rightarrow> nat \<Rightarrow> ResultStore \<Rightarrow> bool" where
  "waiting seq ref st =
     (futures st seq = Some ref \<and> objects st ref = Pending \<and> ref < next_ref st \<and>
      (\<forall>s. futures st s = Some ref \<longrightarrow> s = seq))"

text \<open>
  Each future is created by one call of \<^verbatim>\<open>ResultStore.fetch\<close> and stored under that
  call's sequence number only: no two slots hold the same future.
\<close>

definition one_slot_per_future :: "ResultStore \<Rightarrow> bool" where
  "one_slot_per_future st =
     (\<forall>s s' r. futures st s = Some r \<and> futures st s' = Some r \<longrightarrow> s = s')"

text \<open>A transport that records its invocation in a log and returns \<open>out\<close>.\<close>

definition stub_api :: "string \<Rightarrow> error + json \<Rightarrow> (string list) api" where
  "stub_api name out = (\<lambda>action params w. (out, w @ [name]))"

text \<open>A reply frame for the call with sequence number \<open>i\<close>.\<close>

definition reply_for :: "int \<Rightarrow> py_dict" where
  "reply_for i =
     [(''status'', JStr ''ok''), (''data'', JStr ''sent''), (''echo'', JObj [(''seq'', JInt i)])]"

definition world0 :: world where
  "world0 = \<lparr> seq_counter = seq_initial, store = empty_store, sent = [] \<rparr>"

definition local_api :: HttpApi where
  "local_api = HttpApi_init (Some ''http://127.0.0.1:5700/'') None"

section \<open>Result extraction and the HTTP transport\<close>

lemmas store_defs = ResultStore_fetch_def fetch_begin_def poll_def fetch_finally_def
  cancel_future_def empty_store_def ResultStore_add_def echo_seq_def dict_get_def

lemma local_api_available: "http_is_available local_api"
  by (simp add: local_api_def HttpApi_init_def http_is_available_def rstrip_slash_def)

text \<open>
  C5. For a 2xx response whose body parses to a JSON object, the call raises
  \<^verbatim>\<open>ActionFailed\<close> with the object's \<^verbatim>\<open>retcode\<close> when its \<^verbatim>\<open>status\<close> is \<^verbatim>\<open>'failed'\<close>
  and returns its \<^verbatim>\<open>data\<close> field otherwise; for a non-2xx response it raises
  \<^verbatim>\<open>HttpFailed\<close> with the status code. The extraction is \<open>handle_api_result\<close>, the
  function the persistent transport applies to its replies.
\<close>

theorem http_result_extraction:
  assumes "http_is_available api" and "\<And>rq. post rq = Response status body"
  shows "(200 \<le> status \<and> status < 300 \<and> body = Some (JObj d) \<longrightarrow>
            HttpApi_call_action post api action params = handle_api_result (JObj d) \<and>
            handle_api_result (JObj d) =
              (if dict_get d ''status'' = JStr ''failed''
               then Inl (ActionFailed (dict_get d ''retcode''))
               else Inr (dict_get d ''data'')))
       \<and> (\<not> (200 \<le> status \<and> status < 300) \<longrightarrow>
            HttpApi_call_action post api action params = Inl (HttpFailed status))"
  using assms
  by (auto simp: HttpApi_call_action_def http_is_available_def split: option.splits)

theorem http_result_extraction_witness:
  "HttpApi_call_action
     (\<lambda>rq. Response 200 (Some (JObj [(''status'', JStr ''ok''), (''data'', JObj [(''x'', JInt 1)])])))
     local_api ''get_status'' [] = Inr (JObj [(''x'', JInt 1)])
   \<and> HttpApi_call_action
     (\<lambda>rq. Response 200 (Some (JObj [(''status'', JStr ''failed''), (''retcode'', JInt 100)])))
     local_api ''get_status'' [] = Inl (ActionFailed (JInt 100))
   \<and> HttpApi_call_action (\<lambda>rq. Response 500 None) local_api ''get_status'' []
       = Inl (HttpFailed 500)"
  using
    http_result_extraction [OF local_api_available, of
      "\<lambda>rq. Response 200 (Some (JObj [(''status'', JStr ''ok''), (''data'', JObj [(''x'', JInt 1)])]))"
      200 "Some (JObj [(''status'', JStr ''ok''), (''data'', JObj [(''x'', JInt 1)])])"
      "[(''status'', JStr ''ok''), (''data'', JObj [(''x'', JInt 1)])]" "''get_status''" "[]"]
    http_result_extraction [OF local_api_available, of
      "\<lambda>rq. Response 200 (Some (JObj [(''status'', JStr ''failed''), (''retcode'', JInt 100)]))"
      200 "Some (JObj [(''status'', JStr ''failed''), (''retcode'', JInt 100)])"
      "[(''status'', JStr ''failed''), (''retcode'', JInt 100)]" "''get_status''" "[]"]
    http_result_extraction [OF local_api_available, of "\<lambda>rq. Response 500 None" 500 None
      "[]" "''get_status''" "[]"]
  by (simp add: dict_get_def)

section \<open>The sequence generator\<close>

lemma seq_after_closed: "seq_after n = (1 + int n) mod sys_maxsize"
proof (induction n)
  case 0
  show ?case by (simp add: seq_initial_def sys_maxsize_def)
next
  case (Suc n)
  have "seq_after (Suc n) = (1 + (1 + int n) mod sys_maxsize) mod sys_maxsize"
    using Suc by (simp add: seq_next_def add.commute)
  also have "\<dots> = (1 + (1 + int n)) mod sys_maxsize"
    by (rule mod_add_right_eq)
  finally show ?case by (simp add: add.commute add.left_commute)
qed

text \<open>
  C4, as stated, fails: the call that follows the one returning \<^verbatim>\<open>sys.maxsize - 1\<close>
  returns 0, and only the call after that returns 1.
\<close>

theorem seq_wraps_to_zero:
  "nth_id 9223372036854775805 = sys_maxsize - 1
   \<and> nth_id 9223372036854775806 = 0
   \<and> nth_id 9223372036854775807 = 1"
  by (simp add: nth_id_def seq_next_def seq_after_closed sys_maxsize_def)

text \<open>
  C4, amended. The counter starts at 1 and runs modulo \<^verbatim>\<open>sys.maxsize\<close>: the call after
  \<open>n\<close> earlier calls returns \<open>(1 + n) mod sys.maxsize\<close>, a value from 0 to
  \<^verbatim>\<open>sys.maxsize - 1\<close>; after \<^verbatim>\<open>sys.maxsize - 1\<close> the next identifier is 0.
\<close>

theorem nth_id_closed_form:
  "nth_id n = (1 + int n) mod sys_maxsize
   \<and> 0 \<le> nth_id n \<and> nth_id n < sys_maxsize
   \<and> fst (seq_next (snd (seq_next (sys_maxsize - 1)))) = 0"
  by (simp add: nth_id_def seq_next_def seq_after_closed sys_maxsize_def)

section \<open>The unified dispatcher\<close>

text \<open>
  C1. With both transports configured the persistent one is tried first. When it
  succeeds, its result is the call's, whatever the HTTP transport is: the HTTP transport
  is not invoked. When it raises \<^verbatim>\<open>ApiNotAvailable\<close>, the call is the HTTP transport's call
  on the world the persistent one left. Any other failure of the persistent transport is
  the call's failure. When both raise \<^verbatim>\<open>ApiNotAvailable\<close>, or neither is configured, the
  call raises \<^verbatim>\<open>ApiNotAvailable\<close>.
\<close>

theorem unified_failover:
  fixes http wsr :: "'w api"
  shows
  "(wsr action params w = (Inr r, w1) \<longrightarrow>
      UnifiedApi_call_action (Some http) (Some wsr) action params w = (Inr r, w1))
   \<and> (wsr action params w = (Inl ApiNotAvailable, w1) \<longrightarrow>
      UnifiedApi_call_action (Some http) (Some wsr) action params w = http action params w1)
   \<and> (wsr action params w = (Inl e, w1) \<and> e \<noteq> ApiNotAvailable \<longrightarrow>
      UnifiedApi_call_action (Some http) (Some wsr) action params w = (Inl e, w1))
   \<and> (wsr action params w = (Inl ApiNotAvailable, w1) \<and>
      http action params w1 = (Inl ApiNotAvailable, w2) \<longrightarrow>
      UnifiedApi_call_action (Some http) (Some wsr) action params w = (Inl ApiNotAvailable, w2))
   \<and> UnifiedApi_call_action None None action params w = (Inl ApiNotAvailable, w)"
  by (auto simp: UnifiedApi_call_action_def try_call_def split: prod.splits sum.splits)

theorem unified_failover_witness:
  "UnifiedApi_call_action (Some (stub_api ''http'' (Inr (JStr ''h''))))
     (Some (stub_api ''wsr'' (Inr (JStr ''w'')))) ''send_msg'' [] []
     = (Inr (JStr ''w''), [''wsr''])
   \<and> UnifiedApi_call_action (Some (stub_api ''http'' (Inr (JStr ''h''))))
     (Some (stub_api ''wsr'' (Inl ApiNotAvailable))) ''send_msg'' [] []
     = (Inr (JStr ''h''), [''wsr'', ''http''])
   \<and> UnifiedApi_call_action (Some (stub_api ''http'' (Inr (JStr ''h''))))
     (Some (stub_api ''wsr'' (Inl (NetworkError ''WebSocket API call timeout'')))) ''send_msg'' [] []
     = (Inl (NetworkError ''WebSocket API call timeout''), [''wsr''])
   \<and> UnifiedApi_call_action (Some (stub_api ''http'' (Inl ApiNotAvailable)))
     (Some (stub_api ''wsr'' (Inl ApiNotAvailable))) ''send_msg'' [] []
     = (Inl ApiNotAvailable, [''wsr'', ''http''])
   \<and> UnifiedApi_call_action (None :: string list api option) None ''send_msg'' [] []
     = (Inl ApiNotAvailable, [])"
  using
    unified_failover [of "stub_api ''wsr'' (Inr (JStr ''w''))" "''send_msg''" "[]" "[]"
      "JStr ''w''" "[''wsr'']" "stub_api ''http'' (Inr (JStr ''h''))"]
    unified_failover [of "stub_api ''wsr'' (Inl ApiNotAvailable)" "''send_msg''" "[]" "[]"
      _ "[''wsr'']" "stub_api ''http'' (Inr (JStr ''h''))"]
    unified_failover [of "stub_api ''wsr'' (Inl (NetworkError ''WebSocket API call timeout''))"
      "''send_msg''" "[]" "[]" _ "[''wsr'']" "stub_api ''http'' (Inr (JStr ''h''))"
      "NetworkError ''WebSocket API call timeout''"]
    unified_failover [of "stub_api ''wsr'' (Inl ApiNotAvailable)" "''send_msg''" "[]" "[]"
      _ "[''wsr'']" "stub_api ''http'' (Inl ApiNotAvailable)" _ "[''wsr'', ''http'']"]
    unified_failover [of "stub_api ''wsr'' (Inl ApiNotAvailable)" "''send_msg''" "[]"
      "[] :: string list"]
  by (simp add: stub_api_def)

section \<open>The result store\<close>

lemma wf_empty_store: "wf_store empty_store"
  by (simp add: wf_store_def empty_store_def)

lemma wf_fetch_begin: "wf_store st \<Longrightarrow> wf_store (snd (fetch_begin seq st))"
  by (auto simp: wf_store_def fetch_begin_def less_Suc_eq)

text \<open>
  C8. \<^verbatim>\<open>ResultStore.add\<close> of a reply whose \<^verbatim>\<open>echo.seq\<close> is not a key of the store
  raises nothing and leaves the store as it was.
\<close>

theorem add_unregistered_noop:
  assumes "echo_seq d = Some i" and "futures st i = None"
  shows "ResultStore_add (JObj d) st = Inr st"
  using assms by (simp add: ResultStore_add_def)

theorem add_unregistered_noop_witness:
  "echo_seq (reply_for 8) = Some 8
   \<and> futures (snd (fetch_begin 7 empty_store)) 8 = None
   \<and> ResultStore_add (JObj (reply_for 8)) (snd (fetch_begin 7 empty_store))
       = Inr (snd (fetch_begin 7 empty_store))"
proof -
  have a: "echo_seq (reply_for 8) = Some 8"
    by (simp add: echo_seq_def reply_for_def dict_get_def)
  have b: "futures (snd (fetch_begin 7 empty_store)) 8 = None"
    by (simp add: fetch_begin_def empty_store_def)
  from a b add_unregistered_noop [OF a b] show ?thesis by simp
qed



lemma one_slot_fetch_begin:
  "wf_store st \<Longrightarrow> one_slot_per_future st \<Longrightarrow> one_slot_per_future (snd (fetch_begin seq st))"
  unfolding one_slot_per_future_def wf_store_def fetch_begin_def
  by (auto split: if_splits)

lemma store_invariants_env_step:
  assumes "wf_store st" and "one_slot_per_future st"
  shows "wf_store (env_step ev st) \<and> one_slot_per_future (env_step ev st)"
proof (cases ev)
  case (Reply r)
  have "futures (env_step (Reply r) st) = futures st \<and>
        next_ref (env_step (Reply r) st) = next_ref st"
    by (cases r)
       (auto simp: ResultStore_add_def split: option.splits future.splits)
  with assms Reply show ?thesis
    by (simp add: wf_store_def one_slot_per_future_def)
next
  case (OtherFetchBegin s)
  with assms wf_fetch_begin [OF assms(1), of s] one_slot_fetch_begin [OF assms, of s]
  show ?thesis by simp
next
  case (OtherFetchEnd s)
  with assms show ?thesis
    by (auto simp: wf_store_def one_slot_per_future_def fetch_finally_def
             split: option.splits if_splits)
qed (use assms in auto)



text \<open>
  C2. Whatever happens while the call is suspended, and however \<^verbatim>\<open>ResultStore.fetch\<close>
  exits (with a result, with the timeout's \<^verbatim>\<open>NetworkError\<close>, with the cancellation, or
  with the \<^verbatim>\<open>KeyError\<close> of its own \<^verbatim>\<open>del\<close>), the store it leaves has no slot for the
  sequence number.
\<close>

theorem fetch_releases_slot:
  assumes "ResultStore_fetch seq evs st = Some (out, st')"
  shows "futures st' seq = None"
  using assms
  by (auto simp: ResultStore_fetch_def fetch_finally_def
           split: prod.splits option.splits sum.splits)

lemma fetch_example_reply:
  "map_option fst (ResultStore_fetch 7 [Tick, Reply (JObj (reply_for 7))] empty_store)
     = Some (Inr (JObj (reply_for 7)))"
  by (simp add: store_defs reply_for_def)

lemma fetch_example_cancel:
  "map_option fst (ResultStore_fetch 7 [Tick, CancelTask] empty_store)
     = Some (Inl CancelledError)"
  by (simp add: store_defs)

lemma fetch_example_timeout:
  "map_option fst (ResultStore_fetch 7 (replicate 60 Tick) empty_store)
     = Some (Inl (NetworkError ''WebSocket API call timeout''))"
  by (simp add: store_defs eval_nat_numeral)

lemma fetch_example_keyerror:
  "map_option fst (ResultStore_fetch 7 [OtherFetchEnd 7, CancelTask] empty_store)
     = Some (Inl (KeyError (JInt 7)))"
  by (simp add: store_defs)

theorem fetch_releases_slot_witness:
  "(\<exists>st'. ResultStore_fetch 7 [Tick, Reply (JObj (reply_for 7))] empty_store
            = Some (Inr (JObj (reply_for 7)), st') \<and> futures st' 7 = None)
   \<and> (\<exists>st'. ResultStore_fetch 7 (replicate 60 Tick) empty_store
            = Some (Inl (NetworkError ''WebSocket API call timeout''), st')
          \<and> futures st' 7 = None)
   \<and> (\<exists>st'. ResultStore_fetch 7 [Tick, CancelTask] empty_store
            = Some (Inl CancelledError, st') \<and> futures st' 7 = None)
   \<and> (\<exists>st'. ResultStore_fetch 7 [OtherFetchEnd 7, CancelTask] empty_store
            = Some (Inl (KeyError (JInt 7)), st') \<and> futures st' 7 = None)"
proof -
  have run: "\<exists>st'. ResultStore_fetch 7 evs empty_store = Some (out, st') \<and> futures st' 7 = None"
    if "map_option fst (ResultStore_fetch 7 evs empty_store) = Some out" for evs out
  proof -
    from that obtain st' where h: "ResultStore_fetch 7 evs empty_store = Some (out, st')"
      by (cases "ResultStore_fetch 7 evs empty_store") auto
    from fetch_releases_slot [OF h] h show ?thesis by blast
  qed
  show ?thesis
    using run [OF fetch_example_reply] run [OF fetch_example_timeout]
      run [OF fetch_example_cancel] run [OF fetch_example_keyerror]
    by blast
qed

section \<open>Waiting under a schedule\<close>

lemma waiting_begin:
  "wf_store st \<Longrightarrow> waiting seq (fst (fetch_begin seq st)) (snd (fetch_begin seq st))"
  by (auto simp: waiting_def fetch_begin_def wf_store_def)

lemma waiting_env:
  assumes "waiting seq ref st" "unrelated seq ev"
  shows "waiting seq ref (env_step ev st)"
proof (cases ev)
  case (Reply r)
  show ?thesis
  proof (cases r)
    case (JObj d)
    with Reply assms show ?thesis
      by (auto simp: waiting_def ResultStore_add_def split: option.splits future.splits)
  qed (use Reply assms in \<open>auto simp: ResultStore_add_def\<close>)
next
  case (OtherFetchBegin s)
  with assms show ?thesis by (auto simp: waiting_def fetch_begin_def)
next
  case (OtherFetchEnd s)
  with assms show ?thesis by (auto simp: waiting_def fetch_finally_def split: option.splits)
qed (use assms in auto)

lemma poll_waiting:
  "waiting seq ref st \<Longrightarrow>
     poll ref secs st = (if secs = 0 then Some (Inl TimeoutError, cancel_future ref st) else None)"
  by (simp add: waiting_def poll_def)

lemma waiting_slot:
  "waiting seq ref st \<Longrightarrow> futures (cancel_future ref st) seq = Some ref"
  by (simp add: waiting_def cancel_future_def)

lemma wait_for_timeout:
  "waiting seq ref st \<Longrightarrow> secs \<le> ticks evs \<Longrightarrow>
   list_all (unrelated seq) (before_deadline secs evs) \<Longrightarrow>
   \<exists>st'. wait_for ref secs evs st = Some (Inl TimeoutError, st') \<and> futures st' seq = Some ref"
proof (induction evs arbitrary: secs st)
  case Nil
  then show ?case by (simp add: poll_waiting waiting_slot)
next
  case (Cons ev evs)
  show ?case
  proof (cases secs)
    case 0
    with Cons.prems show ?thesis by (simp add: poll_waiting waiting_slot)
  next
    case (Suc k)
    show ?thesis
    proof (cases ev)
      case Tick
      with Suc Cons.prems Cons.IH[of st k] show ?thesis by (simp add: poll_waiting)
    next
      case CancelTask
      with Suc Cons.prems show ?thesis by simp
    next
      case (Reply r)
      with Suc Cons.prems have u: "unrelated seq ev" by simp
      from waiting_env[OF Cons.prems(1) u] Reply Suc Cons.prems
        Cons.IH[of "env_step ev st" secs]
      show ?thesis by (simp add: poll_waiting)
    next
      case (OtherFetchBegin s)
      with Suc Cons.prems have u: "unrelated seq ev" by simp
      from waiting_env[OF Cons.prems(1) u] OtherFetchBegin Suc Cons.prems
        Cons.IH[of "env_step ev st" secs]
      show ?thesis by (simp add: poll_waiting)
    next
      case (OtherFetchEnd s)
      with Suc Cons.prems have u: "unrelated seq ev" by simp
      from waiting_env[OF Cons.prems(1) u] OtherFetchEnd Suc Cons.prems
        Cons.IH[of "env_step ev st" secs]
      show ?thesis by (simp add: poll_waiting)
    qed
  qed
qed

lemma wait_for_reply:
  "waiting seq ref st \<Longrightarrow> list_all (unrelated seq) pre \<Longrightarrow> ticks pre < secs \<Longrightarrow>
   echo_seq d = Some seq \<Longrightarrow>
   \<exists>st'. wait_for ref secs (pre @ Reply (JObj d) # post) st = Some (Inr (JObj d), st')
        \<and> futures st' seq = Some ref"
proof (induction pre arbitrary: secs st)
  case Nil
  then have s: "secs \<noteq> 0" by simp
  let ?st = "env_step (Reply (JObj d)) st"
  from Nil have a: "futures ?st seq = Some ref" "objects ?st ref = Done (JObj d)"
    by (auto simp: waiting_def ResultStore_add_def)
  then have "\<And>rest. wait_for ref secs rest ?st = Some (Inr (JObj d), ?st)"
    subgoal for rest by (cases rest) (simp_all add: poll_def)
    done
  with Nil s a show ?case by (simp add: poll_waiting)
next
  case (Cons ev pre)
  from Cons.prems have u: "unrelated seq ev" and s: "secs \<noteq> 0" by auto
  show ?case
  proof (cases ev)
    case Tick
    with Cons.prems Cons.IH[of st "secs - 1"] s show ?thesis by (simp add: poll_waiting)
  next
    case CancelTask
    with u show ?thesis by simp
  next
    case (Reply r)
    from waiting_env[OF Cons.prems(1) u] Reply Cons.prems
      Cons.IH[of "env_step ev st" secs] s
    show ?thesis by (simp add: poll_waiting)
  next
    case (OtherFetchBegin x)
    from waiting_env[OF Cons.prems(1) u] OtherFetchBegin Cons.prems
      Cons.IH[of "env_step ev st" secs] s
    show ?thesis by (simp add: poll_waiting)
  next
    case (OtherFetchEnd x)
    from waiting_env[OF Cons.prems(1) u] OtherFetchEnd Cons.prems
      Cons.IH[of "env_step ev st" secs] s
    show ?thesis by (simp add: poll_waiting)
  qed
qed

lemma fetch_reply:
  assumes "wf_store st" "list_all (unrelated seq) pre" "ticks pre < 60"
    and "echo_seq d = Some seq"
  shows "\<exists>st'. ResultStore_fetch seq (pre @ Reply (JObj d) # post) st
                 = Some (Inr (JObj d), st') \<and> futures st' seq = None"
proof -
  obtain ref st1 where b: "fetch_begin seq st = (ref, st1)" by (cases "fetch_begin seq st")
  with waiting_begin [OF assms(1), of seq] have w: "waiting seq ref st1" by simp
  from wait_for_reply [OF w assms(2) assms(3) assms(4), of post] obtain st2 where
    r: "wait_for ref 60 (pre @ Reply (JObj d) # post) st1 = Some (Inr (JObj d), st2)"
    and s: "futures st2 seq = Some ref" by blast
  from b r s show ?thesis by (simp add: ResultStore_fetch_def fetch_finally_def)
qed

lemma ticks_replicate: "ticks (replicate n Tick @ evs) = n + ticks evs"
  by (induction n) simp_all

lemma before_deadline_replicate: "before_deadline n (replicate n Tick @ evs) = replicate n Tick"
  by (induction n) simp_all

text \<open>
  C3. When 60 seconds pass and nothing before the deadline resolves the sequence number
  (no reply for it, no cancellation of the task, no other waiter on the same number),
  \<^verbatim>\<open>ResultStore.fetch\<close> returns, it raises \<^verbatim>\<open>NetworkError\<close>, and the store it leaves has no
  slot for the number. What happens after the deadline does not matter.
\<close>

theorem fetch_timeout:
  assumes "wf_store st" and "60 \<le> ticks evs"
    and "list_all (unrelated seq) (before_deadline 60 evs)"
  shows "\<exists>st'. ResultStore_fetch seq evs st
                 = Some (Inl (NetworkError ''WebSocket API call timeout''), st')
               \<and> futures st' seq = None"
proof -
  obtain ref st1 where b: "fetch_begin seq st = (ref, st1)" by (cases "fetch_begin seq st")
  with waiting_begin [OF assms(1), of seq] have w: "waiting seq ref st1" by simp
  from wait_for_timeout [OF w assms(2) assms(3)] obtain st2 where
    r: "wait_for ref 60 evs st1 = Some (Inl TimeoutError, st2)"
    and s: "futures st2 seq = Some ref" by blast
  from b r s show ?thesis by (simp add: ResultStore_fetch_def fetch_finally_def)
qed

theorem fetch_timeout_witness:
  "wf_store empty_store
   \<and> 60 \<le> ticks (replicate 60 Tick @ [Reply (JObj (reply_for 7))])
   \<and> list_all (unrelated 7)
       (before_deadline 60 (replicate 60 Tick @ [Reply (JObj (reply_for 7))]))
   \<and> (\<exists>st'. ResultStore_fetch 7 (replicate 60 Tick @ [Reply (JObj (reply_for 7))]) empty_store
              = Some (Inl (NetworkError ''WebSocket API call timeout''), st')
            \<and> futures st' 7 = None)"
proof -
  let ?evs = "replicate 60 Tick @ [Reply (JObj (reply_for 7))]"
  have a: "60 \<le> ticks ?evs" by (simp add: ticks_replicate)
  have b: "list_all (unrelated 7) (before_deadline 60 ?evs)"
    by (simp add: before_deadline_replicate list_all_iff)
  from wf_empty_store a b fetch_timeout [OF wf_empty_store a b] show ?thesis by simp
qed

section \<open>The persistent transport\<close>

text \<open>
  C7. When a connection is selected, the frame handed to it is the object
  \<open>{action, params, echo: {seq: id}}\<close> with \<open>id\<close> the identifier
  \<^verbatim>\<open>_SequenceGenerator.next()\<close> returns in this call, however the call ends. When the
  reply carrying that \<open>id\<close> arrives before the deadline (and before any cancellation or
  other waiter on \<open>id\<close>), \<^verbatim>\<open>ResultStore.fetch\<close> returns exactly that reply, and the call
  returns what \<^verbatim>\<open>_handle_api_result\<close> extracts from it.
\<close>

theorem wsr_call_frame_and_reply:
  assumes "select_api_ws str_of cs event_ws params = Inr (Some c)"
  shows "(\<forall>evs out w'.
            WebSocketReverseApi_call_action str_of cs event_ws evs action params w
              = Some (out, w')
            \<longrightarrow> sent w' = sent w @
                  [(c, JObj [(''action'', JStr action), (''params'', JObj params),
                             (''echo'', JObj [(''seq'', JInt (fst (seq_next (seq_counter w))))])])]
              \<and> seq_counter w' = snd (seq_next (seq_counter w)))
       \<and> (wf_store (store w) \<and> list_all (unrelated (fst (seq_next (seq_counter w)))) pre
            \<and> ticks pre < 60 \<and> echo_seq d = Some (fst (seq_next (seq_counter w)))
          \<longrightarrow> (\<exists>st'. ResultStore_fetch (fst (seq_next (seq_counter w)))
                        (pre @ Reply (JObj d) # post) (store w) = Some (Inr (JObj d), st'))
            \<and> (\<exists>w'. WebSocketReverseApi_call_action str_of cs event_ws
                        (pre @ Reply (JObj d) # post) action params w
                      = Some (handle_api_result (JObj d), w')))"
proof (intro conjI allI impI)
  fix evs out w'
  assume "WebSocketReverseApi_call_action str_of cs event_ws evs action params w = Some (out, w')"
  with assms show "sent w' = sent w @
      [(c, JObj [(''action'', JStr action), (''params'', JObj params),
                 (''echo'', JObj [(''seq'', JInt (fst (seq_next (seq_counter w))))])])]"
    and "seq_counter w' = snd (seq_next (seq_counter w))"
    by (auto simp: WebSocketReverseApi_call_action_def frame_of_def seq_next_def
             split: option.splits prod.splits)
next
  assume h: "wf_store (store w) \<and> list_all (unrelated (fst (seq_next (seq_counter w)))) pre
            \<and> ticks pre < 60 \<and> echo_seq d = Some (fst (seq_next (seq_counter w)))"
  then obtain st' where
    f: "ResultStore_fetch (fst (seq_next (seq_counter w))) (pre @ Reply (JObj d) # post) (store w)
          = Some (Inr (JObj d), st')"
    using fetch_reply [of "store w" "fst (seq_next (seq_counter w))" pre d post] by blast
  then show "\<exists>st'. ResultStore_fetch (fst (seq_next (seq_counter w)))
                        (pre @ Reply (JObj d) # post) (store w) = Some (Inr (JObj d), st')"
    by blast
  from f assms show "\<exists>w'. WebSocketReverseApi_call_action str_of cs event_ws
                        (pre @ Reply (JObj d) # post) action params w
                      = Some (handle_api_result (JObj d), w')"
    by (simp add: WebSocketReverseApi_call_action_def seq_next_def)
qed

theorem wsr_call_frame_and_reply_witness:
  "select_api_ws py_str [(''123'', 1)] None [(''message'', JStr ''hi'')] = Inr (Some 1)
   \<and> wf_store (store world0)
   \<and> list_all (unrelated (fst (seq_next (seq_counter world0)))) [Tick, Reply (JObj (reply_for 5))]
   \<and> ticks [Tick, Reply (JObj (reply_for 5))] < 60
   \<and> echo_seq (reply_for 1) = Some (fst (seq_next (seq_counter world0)))
   \<and> (\<exists>w'. WebSocketReverseApi_call_action py_str [(''123'', 1)] None
              ([Tick, Reply (JObj (reply_for 5))] @ Reply (JObj (reply_for 1)) # [Tick])
              ''send_msg'' [(''message'', JStr ''hi'')] world0
            = Some (Inr (JStr ''sent''), w')
          \<and> sent w' =
              [(1, JObj [(''action'', JStr ''send_msg''),
                         (''params'', JObj [(''message'', JStr ''hi'')]),
                         (''echo'', JObj [(''seq'', JInt 1)])])])"
proof -
  have a: "select_api_ws py_str [(''123'', 1)] None [(''message'', JStr ''hi'')] = Inr (Some 1)"
    by (simp add: select_api_ws_def wsr_is_available_def dict_get_def)
  have b: "wf_store (store world0)"
    by (simp add: world0_def wf_empty_store)
  have c: "list_all (unrelated (fst (seq_next (seq_counter world0))))
             [Tick, Reply (JObj (reply_for 5))]"
    by (simp add: world0_def seq_next_def seq_initial_def echo_seq_def reply_for_def dict_get_def)
  have d: "ticks [Tick, Reply (JObj (reply_for 5))] < 60" by simp
  have e: "echo_seq (reply_for 1) = Some (fst (seq_next (seq_counter world0)))"
    by (simp add: world0_def seq_next_def seq_initial_def echo_seq_def reply_for_def dict_get_def)
  have r: "handle_api_result (JObj (reply_for 1)) = Inr (JStr ''sent'')"
    by (simp add: reply_for_def dict_get_def)
  have i: "fst (seq_next (seq_counter world0)) = 1" "sent world0 = []"
    by (simp_all add: world0_def seq_next_def seq_initial_def)
  from wsr_call_frame_and_reply [OF a, of "''send_msg''" world0
      "[Tick, Reply (JObj (reply_for 5))]" "reply_for 1" "[Tick]"] b c d e
  obtain w' where
    "WebSocketReverseApi_call_action py_str [(''123'', 1)] None
       ([Tick, Reply (JObj (reply_for 5))] @ Reply (JObj (reply_for 1)) # [Tick])
       ''send_msg'' [(''message'', JStr ''hi'')] world0
     = Some (Inr (JStr ''sent''), w')"
    and "sent w' = [(1, JObj [(''action'', JStr ''send_msg''),
                         (''params'', JObj [(''message'', JStr ''hi'')]),
                         (''echo'', JObj [(''seq'', JInt 1)])])]"
    unfolding r i by (metis append_Nil)
  with a b c d e show ?thesis by blast
qed

text \<open>
  C6, as stated, fails: outside a websocket context, with a \<^verbatim>\<open>self_id\<close> that is supplied
  but not registered and exactly one connection registered, the specification's order
  yields that sole connection, and the call raises \<^verbatim>\<open>ApiNotAvailable\<close>.
\<close>

theorem select_unregistered_self_id:
  "spec_select py_str [(''123'', 1)] None [(''self_id'', JStr ''999'')] = Some 1
   \<and> select_api_ws py_str [(''123'', 1)] None [(''self_id'', JStr ''999'')] = Inr None
   \<and> map_option fst
       (WebSocketReverseApi_call_action py_str [(''123'', 1)] None []
          ''send_msg'' [(''self_id'', JStr ''999'')] world0)
     = Some (Inl ApiNotAvailable)"
  by (simp add: spec_select_def context_ws_def context_identity_def select_api_ws_def
      wsr_is_available_def dict_get_def WebSocketReverseApi_call_action_def)

text \<open>
  C6, amended. Outside a websocket context, or inside one that carries \<^verbatim>\<open>X-Self-ID\<close>:
  (a) when the context's identity is registered, its connection is selected; (b)
  otherwise, when a truthy \<^verbatim>\<open>self_id\<close> is supplied, the connection registered under
  \<^verbatim>\<open>str(self_id)\<close> is selected, and none is when there is none, without a fallback to
  (c); (c) otherwise the sole registered connection is selected when exactly one is
  registered, and none is for any other number of connections. The call raises
  \<^verbatim>\<open>ApiNotAvailable\<close>, touching nothing, whenever no connection is selected.
\<close>

theorem select_order:
  assumes "event_ws \<noteq> None \<longrightarrow> context_identity event_ws \<noteq> None"
  shows "(context_ws cs event_ws = Some c \<longrightarrow>
            select_api_ws str_of cs event_ws params = Inr (Some c))
       \<and> (context_ws cs event_ws = None \<and> py_truthy (dict_get params ''self_id'') \<longrightarrow>
            select_api_ws str_of cs event_ws params
              = Inr (map_of cs (str_of (dict_get params ''self_id''))))
       \<and> (context_ws cs event_ws = None \<and> \<not> py_truthy (dict_get params ''self_id'') \<longrightarrow>
            select_api_ws str_of cs event_ws params
              = Inr (case cs of [(k, c')] \<Rightarrow> Some c' | _ \<Rightarrow> None))
       \<and> (context_ws cs event_ws = None \<and> \<not> py_truthy (dict_get params ''self_id'')
            \<and> length cs \<noteq> 1 \<longrightarrow>
            select_api_ws str_of cs event_ws params = Inr None)
       \<and> (select_api_ws str_of cs event_ws params = Inr None \<longrightarrow>
            WebSocketReverseApi_call_action str_of cs event_ws evs action params w
              = Some (Inl ApiNotAvailable, w))"
proof -
  have sel: "select_api_ws str_of cs event_ws params =
      (case context_ws cs event_ws of
         Some c \<Rightarrow> Inr (Some c)
       | None \<Rightarrow>
           if py_truthy (dict_get params ''self_id'')
           then Inr (map_of cs (str_of (dict_get params ''self_id'')))
           else Inr (case cs of [(k, c')] \<Rightarrow> Some c' | _ \<Rightarrow> None))"
    using assms
    by (cases cs rule: list.exhaust; cases "tl cs")
       (auto simp: select_api_ws_def wsr_is_available_def header_get_def context_ws_def
          context_identity_def split: option.splits list.splits)
  show ?thesis
    by (auto simp: sel WebSocketReverseApi_call_action_def split: list.splits)
qed

theorem select_order_witness:
  "context_identity (Some [(''X-Self-ID'', ''456'')]) = Some ''456''
   \<and> context_identity (Some [(''X-Self-ID'', ''789'')]) = Some ''789''
   \<and> select_api_ws py_str [(''123'', 1), (''456'', 2)] (Some [(''X-Self-ID'', ''456'')])
       [(''self_id'', JStr ''123'')] = Inr (Some 2)
   \<and> select_api_ws py_str [(''123'', 1), (''456'', 2)] (Some [(''X-Self-ID'', ''789'')])
       [(''self_id'', JStr ''123'')] = Inr (Some 1)
   \<and> select_api_ws py_str [(''123'', 1)] None [(''self_id'', JStr ''999'')] = Inr None
   \<and> select_api_ws py_str [(''123'', 1)] None [(''message'', JStr ''hi'')] = Inr (Some 1)
   \<and> select_api_ws py_str [(''123'', 1), (''456'', 2)] None [(''message'', JStr ''hi'')]
       = Inr None
   \<and> WebSocketReverseApi_call_action py_str [(''123'', 1), (''456'', 2)] None []
       ''send_msg'' [(''message'', JStr ''hi'')] world0 = Some (Inl ApiNotAvailable, world0)"
  using
    select_order [of "Some [(''X-Self-ID'', ''456'')]" "[(''123'', 1), (''456'', 2)]" 2 py_str
      "[(''self_id'', JStr ''123'')]"]
    select_order [of "Some [(''X-Self-ID'', ''789'')]" "[(''123'', 1), (''456'', 2)]" _ py_str
      "[(''self_id'', JStr ''123'')]"]
    select_order [of None "[(''123'', 1)]" _ py_str "[(''self_id'', JStr ''999'')]"]
    select_order [of None "[(''123'', 1)]" _ py_str "[(''message'', JStr ''hi'')]"]
    select_order [of None "[(''123'', 1), (''456'', 2)]" _ py_str "[(''message'', JStr ''hi'')]"
      "[]" "''send_msg''" world0]
  by (simp add: context_ws_def context_identity_def dict_get_def)

section \<open>Bodies and replies that are not objects\<close>

text \<open>
  C10, as stated, fails for replies on the persistent transport: a reply that is not a
  JSON object never reaches the extraction. \<^verbatim>\<open>ResultStore.add\<close> raises
  \<^verbatim>\<open>AttributeError\<close> on it, and the call it was meant for ends in the timeout's
  \<^verbatim>\<open>NetworkError\<close>.
\<close>

theorem non_object_reply_not_extracted:
  "ResultStore_add (JArr [JInt 1]) (snd (fetch_begin 1 empty_store)) = Inl AttributeError
   \<and> map_option fst
       (WebSocketReverseApi_call_action py_str [(''123'', 1)] None
          (Reply (JArr [JInt 1]) # replicate 60 Tick) ''send_msg'' [] world0)
     = Some (Inl (NetworkError ''WebSocket API call timeout''))"
  by (simp add: store_defs WebSocketReverseApi_call_action_def select_api_ws_def
      wsr_is_available_def world0_def seq_next_def seq_initial_def eval_nat_numeral)

text \<open>
  C10, amended. \<^verbatim>\<open>_handle_api_result\<close> raises nothing on an argument that is not a JSON
  object and returns \<^verbatim>\<open>None\<close>, and so does the HTTP transport on a 2xx response with such
  a body. On the persistent transport such a reply is not extracted:
  \<^verbatim>\<open>ResultStore.add\<close> raises \<^verbatim>\<open>AttributeError\<close> on it and the store stays as it was, so
  the reply resolves no call, and a call that gets nothing else before its deadline ends
  in the timeout's \<^verbatim>\<open>NetworkError\<close>.
\<close>

theorem non_object_body_is_none:
  assumes "\<And>d. j \<noteq> JObj d"
  shows "handle_api_result j = Inr JNull
       \<and> (http_is_available api \<and> 200 \<le> status \<and> status < 300 \<and>
            (\<forall>rq. post rq = Response status (Some j))
          \<longrightarrow> HttpApi_call_action post api action params = Inr JNull)
       \<and> ResultStore_add j st = Inl AttributeError
       \<and> env_step (Reply j) st = st
       \<and> (wf_store st \<and> 60 \<le> ticks evs
            \<and> list_all (unrelated seq) (before_deadline 60 evs)
          \<longrightarrow> (\<exists>st'. ResultStore_fetch seq (Reply j # evs) st
                       = Some (Inl (NetworkError ''WebSocket API call timeout''), st')))"
proof -
  have x: "handle_api_result j = Inr JNull" using assms by (cases j) auto
  have h: "http_is_available api \<and> 200 \<le> status \<and> status < 300 \<and>
            (\<forall>rq. post rq = Response status (Some j))
          \<longrightarrow> HttpApi_call_action post api action params = Inr JNull"
    using x by (auto simp: HttpApi_call_action_def http_is_available_def split: option.splits)
  have a: "ResultStore_add j st = Inl AttributeError" for st
    using assms by (cases j) (auto simp: ResultStore_add_def)
  have u: "unrelated seq (Reply j)" using assms by (cases j) auto
  have t: "\<exists>st'. ResultStore_fetch seq (Reply j # evs) st
                  = Some (Inl (NetworkError ''WebSocket API call timeout''), st')"
    if w: "wf_store st" and k: "60 \<le> ticks evs"
      and q: "list_all (unrelated seq) (before_deadline 60 evs)"
  proof -
    obtain ref st1 where b: "fetch_begin seq st = (ref, st1)" by (cases "fetch_begin seq st")
    with waiting_begin [OF w, of seq] have wt: "waiting seq ref st1" by simp
    have k': "60 \<le> ticks (Reply j # evs)" using k by simp
    have "before_deadline 60 (Reply j # evs) = Reply j # before_deadline 60 evs"
      by (simp add: eval_nat_numeral)
    with q u have q': "list_all (unrelated seq) (before_deadline 60 (Reply j # evs))" by simp
    from wait_for_timeout [OF wt k' q'] obtain st2 where
      r: "wait_for ref 60 (Reply j # evs) st1 = Some (Inl TimeoutError, st2)"
      and s: "futures st2 seq = Some ref" by blast
    from b r s show ?thesis by (simp add: ResultStore_fetch_def fetch_finally_def)
  qed
  from x h a t show ?thesis by (simp add: a)
qed

theorem non_object_body_is_none_witness:
  "handle_api_result (JArr [JInt 1, JStr ''a'']) = Inr JNull
   \<and> handle_api_result (JInt 5) = Inr JNull
   \<and> handle_api_result (JStr ''failed'') = Inr JNull
   \<and> handle_api_result JNull = Inr JNull
   \<and> http_is_available local_api
   \<and> HttpApi_call_action (\<lambda>rq. Response 200 (Some (JArr [JInt 1, JStr ''a''])))
       local_api ''get_status'' [] = Inr JNull
   \<and> ResultStore_add (JArr [JInt 1, JStr ''a'']) (snd (fetch_begin 7 empty_store))
       = Inl AttributeError
   \<and> wf_store empty_store \<and> 60 \<le> ticks (replicate 60 Tick)
   \<and> list_all (unrelated 7) (before_deadline 60 (replicate 60 Tick))
   \<and> (\<exists>st'. ResultStore_fetch 7 (Reply (JArr [JInt 1, JStr ''a'']) # replicate 60 Tick)
               empty_store
            = Some (Inl (NetworkError ''WebSocket API call timeout''), st'))"
proof -
  have k: "60 \<le> ticks (replicate 60 Tick)"
    using ticks_replicate [of 60 "[]"] by simp
  have q: "list_all (unrelated 7) (before_deadline 60 (replicate 60 Tick))"
    using before_deadline_replicate [of 60 "[]"] by (simp add: list_all_iff)
  show ?thesis
    using
      non_object_body_is_none [of "JArr [JInt 1, JStr ''a'']" local_api 200
        "\<lambda>rq. Response 200 (Some (JArr [JInt 1, JStr ''a'']))" "''get_status''" "[]"
        "snd (fetch_begin 7 empty_store)"]
      non_object_body_is_none [of "JArr [JInt 1, JStr ''a'']" local_api 200
        "\<lambda>rq. Response 200 (Some (JArr [JInt 1, JStr ''a'']))" "''get_status''" "[]"
        empty_store "replicate 60 Tick" 7]
      non_object_body_is_none [of "JInt 5" local_api 200
        "\<lambda>rq. Response 200 (Some (JInt 5))" "''get_status''" "[]"]
      non_object_body_is_none [of "JStr ''failed''" local_api 200
        "\<lambda>rq. Response 200 (Some (JStr ''failed''))" "''get_status''" "[]"]
      non_object_body_is_none [of JNull local_api 200
        "\<lambda>rq. Response 200 (Some JNull)" "''get_status''" "[]"]
      local_api_available wf_empty_store k q
    by simp
qed

end
